theory Spec2Isabelle
  imports Main
begin

section \<open>The calendar context: \<open>WorkTime\<close>\<close>

text \<open>
  \<open>WorkTime\<close> subclasses Python's \<open>datetime\<close> and adds two methods. The record holds
  the fields of a \<open>datetime\<close>; Python's integers are unbounded, so they are \<open>int\<close>.
\<close>

record WorkTime =
  year :: int
  month :: int
  day :: int
  hour :: int
  minute :: int
  second :: int
  microsecond :: int

text \<open>
  \<open>isoweekday\<close> is inherited from the standard library's \<open>datetime\<close> (it is not code
  of the repository); it is written here as the library computes it:
  \<^verbatim>\<open>
  def _is_leap(year):
      return year % 4 == 0 and (year % 100 != 0 or year % 400 == 0)
  def _days_before_year(year):
      y = year - 1
      return y*365 + y//4 - y//100 + y//400
  def _days_before_month(year, month):
      return _DAYS_BEFORE_MONTH[month] + (month > 2 and _is_leap(year))
  def _ymd2ord(year, month, day):
      return _days_before_year(year) + _days_before_month(year, month) + day
  def isoweekday(self):
      return self.toordinal() % 7 or 7
  \<close>
  The constructor of \<open>datetime\<close> only builds values with \<open>1 \<le> month \<le> 12\<close>, the range
  in which the table \<open>_DAYS_BEFORE_MONTH\<close> is read.
\<close>

definition is_leap :: "int \<Rightarrow> bool" where
  "is_leap y = (y mod 4 = 0 \<and> (y mod 100 \<noteq> 0 \<or> y mod 400 = 0))"

definition days_before_year :: "int \<Rightarrow> int" where
  "days_before_year y' = (let y = y' - 1 in y * 365 + y div 4 - y div 100 + y div 400)"

definition DAYS_BEFORE_MONTH :: "int list" where
  "DAYS_BEFORE_MONTH = [-1, 0, 31, 59, 90, 120, 151, 181, 212, 243, 273, 304, 334]"

definition days_before_month :: "int \<Rightarrow> int \<Rightarrow> int" where
  "days_before_month y m =
     DAYS_BEFORE_MONTH ! nat m + (if m > 2 \<and> is_leap y then 1 else 0)"

definition toordinal :: "WorkTime \<Rightarrow> int" where
  "toordinal t = days_before_year (year t) + days_before_month (year t) (month t) + day t"

definition isoweekday :: "WorkTime \<Rightarrow> int" where
  "isoweekday t = (let r = toordinal t mod 7 in if r \<noteq> 0 then r else 7)"

text \<open>
  \<^verbatim>\<open>
  def is_weekend(self):
      if self.isoweekday() not in range(1, 6):
          return True
      return False
  \<close>
\<close>

definition is_weekend :: "WorkTime \<Rightarrow> bool" where
  "is_weekend t = (if \<not> (1 \<le> isoweekday t \<and> isoweekday t < 6) then True else False)"

text \<open>
  \<^verbatim>\<open>
  def is_workday(self):
      if os.path.isfile(os.path.expanduser("~/.vacation")):
          return False
      if not self.is_weekend() and self.hour in range(8, 16):
          return True
      return False
  \<close>
  The first argument says whether \<open>~/.vacation\<close> is a file.
\<close>

definition is_workday :: "bool \<Rightarrow> WorkTime \<Rightarrow> bool" where
  "is_workday vacation t =
     (if vacation then False
      else if \<not> is_weekend t \<and> (8 \<le> hour t \<and> hour t < 16) then True
      else False)"

section \<open>Exceptions, observable events and the program state\<close>

text \<open>
  Every exception the script can raise is a value. \<open>KeyError\<close> carries the missing key
  (\<open>key_err.args[0]\<close>), \<open>CalledProcessError\<close> the exit status and the text of its
  \<open>output\<close> attribute, the others their message.
\<close>

datatype exn =
    ValueError string
  | KeyError string
  | NameError string
  | TypeError string
  | IndexError string
  | OSError string
  | CalledProcessError int string

text \<open>
  What the script does to the outside world, in the order it does it: a line printed, an
  entry sent to the journal (message, \<open>PRIORITY\<close>, \<open>SYSLOG_IDENTIFIER\<close>), the connection
  to the window manager opened, a command line handed to a shell, a directive sent over
  the connection, \<open>sleep(0.1)\<close> (a tenth of a second, counted in milliseconds), and
  \<open>main_quit\<close>.
\<close>

datatype event =
    Print string
  | JournalSend string int string
  | ConnectionOpen
  | Shell string
  | WmCommand string
  | Sleep_ms nat
  | MainQuit

text \<open>
  The module's three lists, the events so far, and the state of everything outside the
  process (\<open>'w\<close>), which the shell and the window manager read and change.
\<close>

record 'w state =
  trace :: "event list"
  world :: 'w
  wants :: "string list"
  pre_list :: "string list"
  weekend_list :: "string list"

type_synonym 'w stmt = "'w state \<Rightarrow> exn option \<times> 'w state"

definition init_state :: "'w \<Rightarrow> 'w state" where
  "init_state w = \<lparr>trace = [], world = w, wants = [], pre_list = [], weekend_list = []\<rparr>"

definition emit :: "event \<Rightarrow> 'w state \<Rightarrow> 'w state" where
  "emit e s = s\<lparr>trace := trace s @ [e]\<rparr>"

text \<open>Two statements in sequence: an exception raised by the first skips the second.\<close>

definition seq :: "'w stmt \<Rightarrow> 'w stmt \<Rightarrow> 'w stmt" where
  "seq f g s = (case f s of (Some e, s') \<Rightarrow> (Some e, s') | (None, s') \<Rightarrow> g s')"

text \<open>A \<open>for\<close> loop over a list: an exception that leaves the body leaves the loop.\<close>

fun for_each :: "('a \<Rightarrow> 'w stmt) \<Rightarrow> 'a list \<Rightarrow> 'w stmt" where
  "for_each body [] s = (None, s)"
| "for_each body (x # xs) s =
     (case body x s of (Some e, s') \<Rightarrow> (Some e, s') | (None, s') \<Rightarrow> for_each body xs s')"

section \<open>\<open>log_message\<close>\<close>

text \<open>
  The priorities of \<open>systemd.journal\<close> are those of syslog (the module is not code of
  the repository).
\<close>

definition LOG_EMERG :: int where "LOG_EMERG = 0"
definition LOG_ALERT :: int where "LOG_ALERT = 1"
definition LOG_CRIT :: int where "LOG_CRIT = 2"
definition LOG_ERR :: int where "LOG_ERR = 3"
definition LOG_WARNING :: int where "LOG_WARNING = 4"
definition LOG_NOTICE :: int where "LOG_NOTICE = 5"
definition LOG_INFO :: int where "LOG_INFO = 6"
definition LOG_DEBUG :: int where "LOG_DEBUG = 7"

definition valid_levels :: "int set" where
  "valid_levels =
     {LOG_EMERG, LOG_ALERT, LOG_CRIT, LOG_ERR, LOG_WARNING, LOG_NOTICE, LOG_INFO, LOG_DEBUG}"

text \<open>Python's \<open>str\<close> of an integer, for the f-string of the \<open>ValueError\<close>.\<close>

fun str_nat :: "nat \<Rightarrow> string" where
  "str_nat n =
     (if n < 10 then [char_of (48 + n)] else str_nat (n div 10) @ [char_of (48 + n mod 10)])"

declare str_nat.simps [simp del]

definition str_int :: "int \<Rightarrow> string" where
  "str_int i = (if i < 0 then CHR ''-'' # str_nat (nat (- i)) else str_nat (nat i))"

definition dq :: char where "dq = CHR 0x22"
definition sq :: char where "sq = CHR 0x27"

text \<open>
  \<^verbatim>\<open>
  def log_message(message, level, syslog_identifier="sway-autostart"):
      valid_levels = {...}
      if level not in valid_levels:
          raise ValueError(f"Invalid log level: {level}")
      print(message)
      journal.send(message, PRIORITY=level, SYSLOG_IDENTIFIER=syslog_identifier)
  \<close>
\<close>

definition log_message :: "string \<Rightarrow> int \<Rightarrow> string \<Rightarrow> 'w stmt" where
  "log_message message level syslog_identifier s =
     (if level \<notin> valid_levels
      then (Some (ValueError (''Invalid log level: '' @ str_int level)), s)
      else (None, emit (JournalSend message level syslog_identifier) (emit (Print message) s)))"

definition sway_autostart :: string where
  "sway_autostart = ''sway-autostart''"

section \<open>Reading the configuration\<close>

text \<open>
  The document \<open>yaml.load\<close> returns: a mapping whose key \<open>autostarts\<close> holds a mapping
  from field names to values, each value a sequence of strings or null (a key written
  with nothing after it). A key may be absent at either level.
\<close>

datatype yaml = YNull | YSeq "string list"

type_synonym autostarts = "string \<rightharpoonup> yaml"
type_synonym config = "string \<rightharpoonup> autostarts"

text \<open>\<open>d[key]\<close> raises \<open>KeyError(key)\<close> on a missing key.\<close>

definition getitem :: "(string \<rightharpoonup> 'a) \<Rightarrow> string \<Rightarrow> exn + 'a" where
  "getitem d k = (case d k of None \<Rightarrow> Inl (KeyError k) | Some v \<Rightarrow> Inr v)"

text \<open>The truth value of a configuration value: null and the empty sequence are false.\<close>

definition truthy :: "yaml \<Rightarrow> bool" where
  "truthy v = (case v of YNull \<Rightarrow> False | YSeq xs \<Rightarrow> xs \<noteq> [])"

text \<open>
  \<open>some_list.extend(loaded_starts[key])\<close>, with the list given by its field update:
  the lookup may raise \<open>KeyError\<close>, and \<open>extend\<close> raises \<open>TypeError\<close> on null.
\<close>

definition extend_from ::
  "((string list \<Rightarrow> string list) \<Rightarrow> 'w state \<Rightarrow> 'w state) \<Rightarrow> autostarts \<Rightarrow> string \<Rightarrow> 'w stmt" where
  "extend_from upd loaded_starts k s =
     (case getitem loaded_starts k of
        Inl e \<Rightarrow> (Some e, s)
      | Inr YNull \<Rightarrow> (Some (TypeError (sq # ''NoneType'' @ sq # '' object is not iterable'')), s)
      | Inr (YSeq xs) \<Rightarrow> (None, upd (\<lambda>l. l @ xs) s))"

text \<open>
  The body of the \<open>try\<close>:
  \<^verbatim>\<open>
  loaded_starts = config_file["autostarts"]
  wants.extend(loaded_starts["common"])
  if loaded_starts["pre"]:
      pre_list.extend(loaded_starts["pre"])
  if workday:
      wants.extend(loaded_starts["work"])
  if weekend:
      weekend_list.extend(loaded_starts["weekend"])
  \<close>
\<close>

definition consume_autostarts :: "config \<Rightarrow> bool \<Rightarrow> bool \<Rightarrow> 'w stmt" where
  "consume_autostarts config_file workday weekend s =
     (case getitem config_file ''autostarts'' of
        Inl e \<Rightarrow> (Some e, s)
      | Inr loaded_starts \<Rightarrow>
          seq (extend_from wants_update loaded_starts ''common'')
         (seq (\<lambda>s. case getitem loaded_starts ''pre'' of
                      Inl e \<Rightarrow> (Some e, s)
                    | Inr v \<Rightarrow>
                        if truthy v then extend_from pre_list_update loaded_starts ''pre'' s
                        else (None, s))
         (seq (\<lambda>s. if workday then extend_from wants_update loaded_starts ''work'' s
                    else (None, s))
              (\<lambda>s. if weekend then extend_from weekend_list_update loaded_starts ''weekend'' s
                    else (None, s)))) s)"

text \<open>
  The configuration step. The file is \<open>None\<close> when \<open>os.path.exists(config_path)\<close> is
  false. The two handlers take \<open>KeyError\<close> and \<open>NameError\<close>; any other exception leaves
  the script.
  \<^verbatim>\<open>
  if os.path.exists(config_path):
      print(f"found/loading config: '{config_path}'")
      with open(config_path, "r", encoding="utf-8") as _config:
          config_file = yaml.load(_config, Loader=yaml.FullLoader)
          try:
              ...
          except KeyError as key_err:
              log_message(f"Key not found in {config_path}: {key_err.args[0]}", journal.LOG_ERR)
          except NameError as name_err:
              log_message(f"name error: {name_err}", journal.LOG_ERR)
  \<close>
\<close>

definition load_config :: "string \<Rightarrow> config option \<Rightarrow> bool \<Rightarrow> bool \<Rightarrow> 'w stmt" where
  "load_config config_path file workday weekend s =
     (case file of
        None \<Rightarrow> (None, s)
      | Some config_file \<Rightarrow>
          (case consume_autostarts config_file workday weekend
                  (emit (Print (''found/loading config: '' @ sq # config_path @ [sq])) s) of
             (Some (KeyError k), s') \<Rightarrow>
               log_message (''Key not found in '' @ config_path @ '': '' @ k) LOG_ERR
                 sway_autostart s'
           | (Some (NameError m), s') \<Rightarrow>
               log_message (''name error: '' @ m) LOG_ERR sway_autostart s'
           | r \<Rightarrow> r))"

section \<open>The outside world\<close>

text \<open>
  What a shell makes of a command line: it runs and exits with a status, its output the
  text Python prints for the captured \<open>output\<close>; or the shell process cannot be started
  and \<open>subprocess\<close> raises \<open>OSError\<close>.
\<close>

datatype proc = Exited int string | SpawnFailed string

text \<open>One reply of the window manager to a directive: i3ipc's \<open>CommandReply\<close>.\<close>

record CommandReply =
  success :: bool
  error :: "string option"

text \<open>
  The shell and the window manager, both reading and changing the world. The connection
  itself is taken as given: the script is started by the window manager it connects to,
  and \<open>Connection\<close>, \<open>command\<close> and \<open>main_quit\<close> return.
\<close>

record 'w env =
  shell :: "'w \<Rightarrow> string \<Rightarrow> proc \<times> 'w"
  wm_command :: "'w \<Rightarrow> string \<Rightarrow> CommandReply list \<times> 'w"

text \<open>\<open>subprocess.run(cmd, shell=True, check=False)\<close>: the exit status is not looked at.\<close>

definition subprocess_run :: "'w env \<Rightarrow> string \<Rightarrow> 'w stmt" where
  "subprocess_run E cmd s =
     (case shell E (world s) cmd of
        (SpawnFailed m, w') \<Rightarrow> (Some (OSError m), (emit (Shell cmd) s)\<lparr>world := w'\<rparr>)
      | (Exited rc out, w') \<Rightarrow> (None, (emit (Shell cmd) s)\<lparr>world := w'\<rparr>))"

text \<open>
  \<open>subprocess.check_output(cmd, shell=True)\<close>: a status other than zero raises
  \<open>CalledProcessError\<close>.
\<close>

definition subprocess_check_output :: "'w env \<Rightarrow> string \<Rightarrow> 'w stmt" where
  "subprocess_check_output E cmd s =
     (case shell E (world s) cmd of
        (SpawnFailed m, w') \<Rightarrow> (Some (OSError m), (emit (Shell cmd) s)\<lparr>world := w'\<rparr>)
      | (Exited rc out, w') \<Rightarrow>
          (if rc \<noteq> 0 then Some (CalledProcessError rc out) else None,
           (emit (Shell cmd) s)\<lparr>world := w'\<rparr>))"

section \<open>The three stages\<close>

text \<open>
  \<^verbatim>\<open>
  for pre_item in pre_list:
      try:
          log_message(f'running (blocking) "pre" task: "{pre_item}"', journal.LOG_INFO)
          subprocess.run(pre_item, shell=True, check=False)
      except subprocess.CalledProcessError as pre_ex:
          log_message(f'failed "{pre_item}": {pre_ex.output}', journal.LOG_ERR)
  \<close>
\<close>

definition pre_task :: "'w env \<Rightarrow> string \<Rightarrow> 'w stmt" where
  "pre_task E pre_item s =
     (case seq (log_message
                  (''running (blocking) '' @ dq # ''pre'' @ dq # '' task: '' @ dq # pre_item @ [dq])
                  LOG_INFO sway_autostart)
               (subprocess_run E pre_item) s of
        (Some (CalledProcessError rc out), s') \<Rightarrow>
          log_message (''failed '' @ dq # pre_item @ dq # '': '' @ out) LOG_ERR sway_autostart s'
      | r \<Rightarrow> r)"

text \<open>
  \<^verbatim>\<open>
  for weekend_item in weekend_list:
      try:
          log_message(f'running (blocking) "weekend" task: "{weekend_item}"', journal.LOG_INFO)
          subprocess.check_output(weekend_item, shell=True)
      except subprocess.CalledProcessError as weekend_except:
          log_message(f'Exception during "{weekend_item}": {weekend_except.output}', journal.LOG_ERR)
  \<close>
\<close>

definition weekend_task :: "'w env \<Rightarrow> string \<Rightarrow> 'w stmt" where
  "weekend_task E weekend_item s =
     (case seq (log_message
                  (''running (blocking) '' @ dq # ''weekend'' @ dq # '' task: '' @ dq #
                     weekend_item @ [dq])
                  LOG_INFO sway_autostart)
               (subprocess_check_output E weekend_item) s of
        (Some (CalledProcessError rc out), s') \<Rightarrow>
          log_message (''Exception during '' @ dq # weekend_item @ dq # '': '' @ out) LOG_ERR
            sway_autostart s'
      | r \<Rightarrow> r)"

text \<open>
  \<open>reply[0].error\<close> as a condition: \<open>reply[0]\<close> raises \<open>IndexError\<close> on an empty list,
  and the error text counts as true when it is there and not empty.
\<close>

definition error_flag :: "CommandReply \<Rightarrow> bool" where
  "error_flag r = (case error r of None \<Rightarrow> False | Some m \<Rightarrow> m \<noteq> [])"

definition reply_error :: "CommandReply list \<Rightarrow> exn + bool" where
  "reply_error reply =
     (case reply of
        [] \<Rightarrow> Inl (IndexError ''list index out of range'')
      | r # _ \<Rightarrow> Inr (error_flag r))"

text \<open>
  \<^verbatim>\<open>
  for wanteditem in wants:
      command = "exec " + wanteditem
      log_message(f'sending to WM: "{command}"', journal.LOG_INFO)
      reply = _wm.command(command)
      sleep(0.1)
      if reply[0].error:
          log_message(f'autostart "{command}" failed, couldn\'t reach WM', journal.LOG_ERR)
  \<close>
\<close>

definition send_wanted :: "'w env \<Rightarrow> string \<Rightarrow> 'w stmt" where
  "send_wanted E wanteditem s =
     (let command = ''exec '' @ wanteditem in
      seq (log_message (''sending to WM: '' @ dq # command @ [dq]) LOG_INFO sway_autostart)
          (\<lambda>s. case wm_command E (world s) command of
                  (reply, w') \<Rightarrow>
                    (let s1 = emit (Sleep_ms 100) ((emit (WmCommand command) s)\<lparr>world := w'\<rparr>) in
                     case reply_error reply of
                       Inl e \<Rightarrow> (Some e, s1)
                     | Inr True \<Rightarrow>
                         log_message
                           (''autostart '' @ dq # command @ dq # '' failed, couldn'' @ sq #
                              ''t reach WM'')
                           LOG_ERR sway_autostart s1
                     | Inr False \<Rightarrow> (None, s1))) s)"

section \<open>The script\<close>

text \<open>
  The body of \<open>__main__\<close>, from the parsed \<open>--config\<close> path, whether \<open>~/.vacation\<close> is a
  file, the value of \<open>WorkTime.now()\<close>, and the loaded configuration if the file exists.
  The weekend loop is under \<open>if weekend:\<close>; \<open>_wm.main_quit()\<close> is the last statement.
\<close>

definition main ::
  "'w env \<Rightarrow> string \<Rightarrow> bool \<Rightarrow> WorkTime \<Rightarrow> config option \<Rightarrow> 'w \<Rightarrow> exn option \<times> 'w state" where
  "main E config_path vacation now file w =
     (let workday = is_workday vacation now;
          weekend = is_weekend now
      in seq (load_config config_path file workday weekend)
        (seq (\<lambda>s. (None, emit ConnectionOpen s))
        (seq (\<lambda>s. for_each (pre_task E) (pre_list s) s)
        (seq (\<lambda>s. if weekend then for_each (weekend_task E) (weekend_list s) s else (None, s))
        (seq (\<lambda>s. for_each (send_wanted E) (wants s) s)
             (\<lambda>s. (None, emit MainQuit s))))))
        (init_state w))"

section \<open>Reading a trace\<close>


fun is_error_report :: "event \<Rightarrow> bool" where
  "is_error_report (JournalSend m level i) = (level = LOG_ERR)"
| "is_error_report e = False"

section \<open>Concrete inputs\<close>

text \<open>3 January 2024 is a Wednesday, 6 January 2024 a Saturday.\<close>

definition wednesday_9am :: WorkTime where
  "wednesday_9am =
     \<lparr>year = 2024, month = 1, day = 3, hour = 9, minute = 0, second = 0, microsecond = 0\<rparr>"

definition wednesday_4pm :: WorkTime where
  "wednesday_4pm =
     \<lparr>year = 2024, month = 1, day = 3, hour = 16, minute = 0, second = 0, microsecond = 0\<rparr>"

definition saturday_10am :: WorkTime where
  "saturday_10am =
     \<lparr>year = 2024, month = 1, day = 6, hour = 10, minute = 0, second = 0, microsecond = 0\<rparr>"

text \<open>The configuration \<open>{pre: ["a"], common: ["b"], weekend: ["c"], work: ["d"]}\<close>.\<close>

definition full_starts :: autostarts where
  "full_starts =
     [''pre'' \<mapsto> YSeq [''a''], ''common'' \<mapsto> YSeq [''b''],
      ''weekend'' \<mapsto> YSeq [''c''], ''work'' \<mapsto> YSeq [''d'']]"

definition full_config :: config where
  "full_config = [''autostarts'' \<mapsto> full_starts]"

text \<open>The same configuration with one key left out.\<close>

definition no_pre_starts :: autostarts where
  "no_pre_starts =
     [''common'' \<mapsto> YSeq [''b''], ''weekend'' \<mapsto> YSeq [''c''], ''work'' \<mapsto> YSeq [''d'']]"

definition no_pre_config :: config where
  "no_pre_config = [''autostarts'' \<mapsto> no_pre_starts]"

definition no_common_starts :: autostarts where
  "no_common_starts =
     [''pre'' \<mapsto> YSeq [''a''], ''weekend'' \<mapsto> YSeq [''c''], ''work'' \<mapsto> YSeq [''d'']]"

definition no_common_config :: config where
  "no_common_config = [''autostarts'' \<mapsto> no_common_starts]"

definition no_work_starts :: autostarts where
  "no_work_starts =
     [''pre'' \<mapsto> YSeq [''a''], ''common'' \<mapsto> YSeq [''b''], ''weekend'' \<mapsto> YSeq [''c'']]"

definition no_work_config :: config where
  "no_work_config = [''autostarts'' \<mapsto> no_work_starts]"

text \<open>
  A world without state: the shell command \<open>false\<close> exits with status 1 and every other
  command with 0; the window manager answers the directive \<open>exec x\<close> with an error and
  every other directive with success.
\<close>

definition sample_env :: "unit env" where
  "sample_env =
     \<lparr>shell = (\<lambda>w cmd. (if cmd = ''false'' then Exited 1 [] else Exited 0 [], w)),
      wm_command =
        (\<lambda>w d. ([if d = ''exec x'' then \<lparr>success = False, error = Some ''unknown''\<rparr>
                   else \<lparr>success = True, error = None\<rparr>], w))\<rparr>"




section \<open>Basic facts\<close>

lemmas calendar_defs = isoweekday_def toordinal_def days_before_year_def days_before_month_def
  DAYS_BEFORE_MONTH_def is_leap_def

lemmas select_defs = load_config_def consume_autostarts_def extend_from_def getitem_def
  truthy_def seq_def emit_def init_state_def

lemma isoweekday_range: "1 \<le> isoweekday t \<and> isoweekday t \<le> 7"
proof -
  have "0 \<le> toordinal t mod 7" and "toordinal t mod 7 < 7"
    by simp_all
  then show ?thesis
    unfolding isoweekday_def Let_def by (simp split: if_splits) arith
qed

lemma is_weekend_iff: "is_weekend t = (isoweekday t = 6 \<or> isoweekday t = 7)"
  using isoweekday_range [of t] unfolding is_weekend_def by auto

lemma is_workday_iff:
  "is_workday vacation t = (\<not> vacation \<and> \<not> is_weekend t \<and> 8 \<le> hour t \<and> hour t < 16)"
  unfolding is_workday_def by auto

lemma isoweekday_wednesday_9am: "isoweekday wednesday_9am = 3"
  by (simp add: wednesday_9am_def calendar_defs)

lemma isoweekday_wednesday_4pm: "isoweekday wednesday_4pm = 3"
  by (simp add: wednesday_4pm_def calendar_defs)

lemma isoweekday_saturday_10am: "isoweekday saturday_10am = 6"
  by (simp add: saturday_10am_def calendar_defs)



lemma log_message_valid:
  "level \<in> valid_levels \<Longrightarrow>
   log_message m level i s = (None, s\<lparr>trace := trace s @ [Print m, JournalSend m level i]\<rparr>)"
  by (simp add: log_message_def emit_def)

lemma LOG_ERR_valid: "LOG_ERR \<in> valid_levels"
  by (simp add: valid_levels_def)

lemma LOG_INFO_valid: "LOG_INFO \<in> valid_levels"
  by (simp add: valid_levels_def)

lemmas log_simps = log_message_valid [OF LOG_ERR_valid] log_message_valid [OF LOG_INFO_valid]

lemma card_valid_levels: "card valid_levels = 8"
  by (simp add: valid_levels_def LOG_EMERG_def LOG_ALERT_def LOG_CRIT_def LOG_ERR_def
      LOG_WARNING_def LOG_NOTICE_def LOG_INFO_def LOG_DEBUG_def)

lemma LOG_INFO_not_ERR: "LOG_INFO \<noteq> LOG_ERR"
  by (simp add: LOG_INFO_def LOG_ERR_def)

lemmas select_simps = select_defs log_simps

text \<open>One pass of the pre loop: the task is announced and run, and nothing else.\<close>

lemma pre_task_step:
  "pre_task E c s =
     (case shell E (world s) c of
        (SpawnFailed m, w') \<Rightarrow> Some (OSError m)
      | (Exited rc out, w') \<Rightarrow> None,
      s\<lparr>trace := trace s @
           [Print (''running (blocking) '' @ dq # ''pre'' @ dq # '' task: '' @ dq # c @ [dq]),
            JournalSend (''running (blocking) '' @ dq # ''pre'' @ dq # '' task: '' @ dq # c @ [dq])
              LOG_INFO sway_autostart,
            Shell c],
         world := snd (shell E (world s) c)\<rparr>)"
  by (simp add: pre_task_def seq_def log_simps subprocess_run_def emit_def
      split: prod.splits proc.splits)



section \<open>The classifier\<close>

text \<open>
  C1. For every timestamp, \<open>is_weekend\<close> holds exactly when the ISO day of the week (a
  number from 1, Monday, to 7, Sunday) is 6 or 7, and \<open>is_workday\<close> holds exactly when
  there is no vacation file, the day is not a weekend day and the hour is at least 8 and
  below 16; at hour 16 the timestamp is not a workday.
\<close>

theorem classify_flags:
  "(1 \<le> isoweekday t \<and> isoweekday t \<le> 7)
   \<and> is_weekend t = (isoweekday t = 6 \<or> isoweekday t = 7)
   \<and> is_workday vacation t = (\<not> vacation \<and> \<not> is_weekend t \<and> 8 \<le> hour t \<and> hour t < 16)
   \<and> (hour t = 16 \<longrightarrow> \<not> is_workday vacation t)"
  using isoweekday_range [of t] is_weekend_iff [of t] is_workday_iff [of vacation t] by simp

theorem classify_flags_witness:
  "hour wednesday_4pm = 16 \<and> \<not> is_weekend wednesday_4pm \<and> \<not> is_workday False wednesday_4pm"
proof -
  have h: "hour wednesday_4pm = 16"
    by (simp add: wednesday_4pm_def)
  have "hour wednesday_4pm = 16 \<longrightarrow> \<not> is_workday False wednesday_4pm"
    and "is_weekend wednesday_4pm = (isoweekday wednesday_4pm = 6 \<or> isoweekday wednesday_4pm = 7)"
    using classify_flags [of wednesday_4pm False] by blast+
  with h show ?thesis
    by (simp add: isoweekday_wednesday_4pm)
qed

text \<open>
  C7. With the vacation file present no timestamp is a workday, and a timestamp that is
  a workday is not a weekend day.
\<close>

theorem vacation_and_exclusion:
  "\<not> is_workday True t \<and> (is_workday vacation t \<longrightarrow> \<not> is_weekend t)"
  by (simp add: is_workday_iff)

theorem vacation_and_exclusion_witness:
  "is_workday False wednesday_9am \<and> \<not> is_weekend wednesday_9am \<and> \<not> is_workday True wednesday_9am"
proof -
  have w: "is_workday False wednesday_9am"
    by (simp add: is_workday_iff is_weekend_iff isoweekday_wednesday_9am)
       (simp add: wednesday_9am_def)
  have "is_workday False wednesday_9am \<longrightarrow> \<not> is_weekend wednesday_9am"
    and "\<not> is_workday True wednesday_9am"
    using vacation_and_exclusion [of wednesday_9am False] by blast+
  with w show ?thesis
    by blast
qed

section \<open>\<open>log_message\<close> and its levels\<close>

text \<open>
  C9. \<open>log_message\<close> raises exactly when the level is not one of the eight journal
  levels. When it raises, the \<open>ValueError\<close> names the level and the state is the one
  before the call: nothing was printed or sent. Otherwise it prints the message, sends it
  to the journal and returns.
\<close>

theorem log_message_levels:
  "(fst (log_message m level i s) \<noteq> None) = (level \<notin> valid_levels)
   \<and> valid_levels = {0, 1, 2, 3, 4, 5, 6, 7}
   \<and> card valid_levels = 8
   \<and> log_message m level i s =
       (if level \<in> valid_levels
        then (None, s\<lparr>trace := trace s @ [Print m, JournalSend m level i]\<rparr>)
        else (Some (ValueError (''Invalid log level: '' @ str_int level)), s))"
  by (simp add: card_valid_levels log_message_valid)
     (simp add: log_message_def valid_levels_def LOG_EMERG_def LOG_ALERT_def LOG_CRIT_def
       LOG_ERR_def LOG_WARNING_def LOG_NOTICE_def LOG_INFO_def LOG_DEBUG_def)

section \<open>Selecting the commands\<close>

text \<open>
  C8. With the configuration \<open>{pre: ["a"], common: ["b"], weekend: ["c"], work: ["d"]}\<close>:
  on a Wednesday at 9 (a workday, not a weekend day) the lists are \<open>pre = ["a"]\<close>,
  \<open>weekend = []\<close>, \<open>general = ["b", "d"]\<close>; on a Saturday (a weekend day, not a
  workday) they are \<open>pre = ["a"]\<close>, \<open>weekend = ["c"]\<close>, \<open>general = ["b"]\<close>.
\<close>

theorem select_example:
  "is_workday False wednesday_9am \<and> \<not> is_weekend wednesday_9am
   \<and> load_config config_path (Some full_config) True False (init_state w) =
       (None, \<lparr>trace = [Print (''found/loading config: '' @ sq # config_path @ [sq])], world = w,
               wants = [''b'', ''d''], pre_list = [''a''], weekend_list = []\<rparr>)
   \<and> is_weekend saturday_10am \<and> \<not> is_workday vacation saturday_10am
   \<and> load_config config_path (Some full_config) False True (init_state w) =
       (None, \<lparr>trace = [Print (''found/loading config: '' @ sq # config_path @ [sq])], world = w,
               wants = [''b''], pre_list = [''a''], weekend_list = [''c'']\<rparr>)"
proof -
  have "is_workday False wednesday_9am"
    by (simp add: is_workday_iff is_weekend_iff isoweekday_wednesday_9am)
       (simp add: wednesday_9am_def)
  moreover have "\<not> is_weekend wednesday_9am"
    by (simp add: is_weekend_iff isoweekday_wednesday_9am)
  moreover have "is_weekend saturday_10am"
    by (simp add: is_weekend_iff isoweekday_saturday_10am)
  moreover have "\<not> is_workday vacation saturday_10am"
    by (simp add: is_workday_iff is_weekend_iff isoweekday_saturday_10am)
  moreover have "load_config config_path (Some full_config) True False (init_state w) =
       (None, \<lparr>trace = [Print (''found/loading config: '' @ sq # config_path @ [sq])], world = w,
               wants = [''b'', ''d''], pre_list = [''a''], weekend_list = []\<rparr>)"
    by (simp add: select_defs full_config_def full_starts_def)
  moreover have "load_config config_path (Some full_config) False True (init_state w) =
       (None, \<lparr>trace = [Print (''found/loading config: '' @ sq # config_path @ [sq])], world = w,
               wants = [''b''], pre_list = [''a''], weekend_list = [''c'']\<rparr>)"
    by (simp add: select_defs full_config_def full_starts_def)
  ultimately show ?thesis
    by blast
qed

text \<open>
  C3. The keys are read inside one \<open>try\<close>, \<open>common\<close> first. When \<open>autostarts\<close> and a
  \<open>common\<close> sequence are there, the pre list is the sequence under \<open>pre\<close>, and the empty
  list when \<open>pre\<close> is null or absent. An absent \<open>pre\<close> is reported all the same: the
  \<open>KeyError\<close> is caught and logged at priority \<open>LOG_ERR\<close>, nothing is raised, and the
  keys \<open>work\<close> and \<open>weekend\<close> are not read.
\<close>

theorem select_pre:
  assumes "config_file ''autostarts'' = Some loaded_starts"
    and "loaded_starts ''common'' = Some (YSeq cs)"
  shows "pre_list (snd (load_config config_path (Some config_file) workday weekend (init_state w))) =
           (case loaded_starts ''pre'' of Some (YSeq ps) \<Rightarrow> ps | _ \<Rightarrow> [])
         \<and> (loaded_starts ''pre'' = None \<longrightarrow>
              load_config config_path (Some config_file) workday weekend (init_state w) =
                (None, \<lparr>trace = [Print (''found/loading config: '' @ sq # config_path @ [sq]),
                                 Print (''Key not found in '' @ config_path @ '': pre''),
                                 JournalSend (''Key not found in '' @ config_path @ '': pre'')
                                   LOG_ERR sway_autostart],
                        world = w, wants = cs, pre_list = [], weekend_list = []\<rparr>))"
  using assms
  by (auto simp add: select_simps split: option.splits yaml.splits sum.splits exn.splits)

theorem select_pre_witness:
  "no_pre_config ''autostarts'' = Some no_pre_starts
   \<and> no_pre_starts ''common'' = Some (YSeq [''b''])
   \<and> no_pre_starts ''pre'' = None
   \<and> load_config ''c.yml'' (Some no_pre_config) False True (init_state ()) =
       (None, \<lparr>trace = [Print (''found/loading config: '' @ sq # ''c.yml'' @ [sq]),
                        Print (''Key not found in '' @ ''c.yml'' @ '': pre''),
                        JournalSend (''Key not found in '' @ ''c.yml'' @ '': pre'')
                          LOG_ERR sway_autostart],
               world = (), wants = [''b''], pre_list = [], weekend_list = []\<rparr>)
   \<and> full_config ''autostarts'' = Some full_starts
   \<and> full_starts ''common'' = Some (YSeq [''b''])
   \<and> pre_list (snd (load_config ''c.yml'' (Some full_config) True False (init_state ()))) = [''a'']"
proof -
  have a: "no_pre_config ''autostarts'' = Some no_pre_starts"
    by (simp add: no_pre_config_def)
  have b: "no_pre_starts ''common'' = Some (YSeq [''b''])"
    by (simp add: no_pre_starts_def)
  have c: "no_pre_starts ''pre'' = None"
    by (simp add: no_pre_starts_def)
  have a': "full_config ''autostarts'' = Some full_starts"
    by (simp add: full_config_def)
  have b': "full_starts ''common'' = Some (YSeq [''b''])"
    by (simp add: full_starts_def)
  have c': "full_starts ''pre'' = Some (YSeq [''a''])"
    by (simp add: full_starts_def)
  note absent =
    select_pre [where config_file = no_pre_config and loaded_starts = no_pre_starts
      and cs = "[''b'']" and config_path = "''c.yml''" and workday = False and weekend = True
      and w = "()", OF a b, THEN conjunct2, rule_format, OF c]
  note present =
    select_pre [where config_file = full_config and loaded_starts = full_starts
      and cs = "[''b'']" and config_path = "''c.yml''" and workday = True and weekend = False
      and w = "()", OF a' b', THEN conjunct1]
  have "pre_list (snd (load_config ''c.yml'' (Some full_config) True False (init_state ()))) = [''a'']"
    using present by (simp only: c' option.case yaml.case)
  with a b c a' b' absent show ?thesis
    by blast
qed

text \<open>
  The claim as the specification words it, that an absent \<open>pre\<close> is no error and that the
  pre list is the \<open>pre\<close> field for every configuration, fails on both counts: without
  \<open>pre\<close> the error is logged, and without \<open>common\<close> the pre list stays empty although
  \<open>pre\<close> holds a command.
\<close>

theorem pre_absent_counterexample:
  "no_pre_starts ''pre'' = None
   \<and> load_config ''c.yml'' (Some no_pre_config) False False (init_state ()) =
     (None, \<lparr>trace = [Print (''found/loading config: '' @ sq # ''c.yml'' @ [sq]),
                      Print ''Key not found in c.yml: pre'',
                      JournalSend ''Key not found in c.yml: pre'' LOG_ERR ''sway-autostart''],
             world = (), wants = [''b''], pre_list = [], weekend_list = []\<rparr>)
   \<and> no_common_starts ''pre'' = Some (YSeq [''a''])
   \<and> load_config ''c.yml'' (Some no_common_config) False False (init_state ()) =
     (None, \<lparr>trace = [Print (''found/loading config: '' @ sq # ''c.yml'' @ [sq]),
                      Print ''Key not found in c.yml: common'',
                      JournalSend ''Key not found in c.yml: common'' LOG_ERR ''sway-autostart''],
             world = (), wants = [], pre_list = [], weekend_list = []\<rparr>)"
  by (simp add: select_simps no_pre_config_def no_common_config_def no_pre_starts_def
      no_common_starts_def sway_autostart_def)

text \<open>
  C4. On a workday, with \<open>common\<close> a sequence and \<open>pre\<close> present but no \<open>work\<close> key,
  the configuration step logs \<open>Key not found in <path>: work\<close> at priority \<open>LOG_ERR\<close>,
  raises nothing, and leaves the pre list as collected and the general list equal to the
  common commands.
\<close>

theorem select_missing_work:
  assumes "config_file ''autostarts'' = Some loaded_starts"
    and "loaded_starts ''common'' = Some (YSeq cs)"
    and "loaded_starts ''pre'' = Some p"
    and "loaded_starts ''work'' = None"
  shows "load_config config_path (Some config_file) True weekend (init_state w) =
           (None, \<lparr>trace = [Print (''found/loading config: '' @ sq # config_path @ [sq]),
                            Print (''Key not found in '' @ config_path @ '': work''),
                            JournalSend (''Key not found in '' @ config_path @ '': work'')
                              LOG_ERR sway_autostart],
                   world = w, wants = cs,
                   pre_list = (case p of YNull \<Rightarrow> [] | YSeq ps \<Rightarrow> ps), weekend_list = []\<rparr>)"
  using assms
  by (auto simp add: select_simps split: option.splits yaml.splits sum.splits exn.splits)

theorem select_missing_work_witness:
  "no_work_config ''autostarts'' = Some no_work_starts
   \<and> no_work_starts ''common'' = Some (YSeq [''b''])
   \<and> no_work_starts ''pre'' = Some (YSeq [''a''])
   \<and> no_work_starts ''work'' = None
   \<and> load_config ''c.yml'' (Some no_work_config) True False (init_state ()) =
       (None, \<lparr>trace = [Print (''found/loading config: '' @ sq # ''c.yml'' @ [sq]),
                        Print (''Key not found in '' @ ''c.yml'' @ '': work''),
                        JournalSend (''Key not found in '' @ ''c.yml'' @ '': work'')
                          LOG_ERR sway_autostart],
               world = (), wants = [''b''], pre_list = [''a''], weekend_list = []\<rparr>)"
proof -
  have a: "no_work_config ''autostarts'' = Some no_work_starts"
    by (simp add: no_work_config_def)
  have b: "no_work_starts ''common'' = Some (YSeq [''b''])"
    by (simp add: no_work_starts_def)
  have c: "no_work_starts ''pre'' = Some (YSeq [''a''])"
    by (simp add: no_work_starts_def)
  have d: "no_work_starts ''work'' = None"
    by (simp add: no_work_starts_def)
  have "load_config ''c.yml'' (Some no_work_config) True False (init_state ()) =
       (None, \<lparr>trace = [Print (''found/loading config: '' @ sq # ''c.yml'' @ [sq]),
                        Print (''Key not found in '' @ ''c.yml'' @ '': work''),
                        JournalSend (''Key not found in '' @ ''c.yml'' @ '': work'')
                          LOG_ERR sway_autostart],
               world = (), wants = [''b''], pre_list = [''a''], weekend_list = []\<rparr>)"
    using select_missing_work [where config_file = no_work_config
        and loaded_starts = no_work_starts and cs = "[''b'']" and p = "YSeq [''a'']"
        and config_path = "''c.yml''" and weekend = False and w = "()", OF a b c d]
    by (simp only: yaml.case)
  with a b c d show ?thesis
    by blast
qed

text \<open>
  C10. One \<open>try\<close> holds the whole step and the keys are read in the order \<open>common\<close>,
  \<open>pre\<close>, \<open>work\<close>, \<open>weekend\<close>, so the first missing key ends it. Without \<open>common\<close>
  the three lists stay empty, whatever the other keys hold. With \<open>common\<close> but without
  \<open>pre\<close> the general list is the common commands only and the weekend list stays empty,
  on a workday and on a weekend alike.
\<close>

theorem single_boundary:
  assumes "config_file ''autostarts'' = Some loaded_starts"
  shows "(loaded_starts ''common'' = None \<longrightarrow>
            load_config config_path (Some config_file) workday weekend (init_state w) =
              (None, \<lparr>trace = [Print (''found/loading config: '' @ sq # config_path @ [sq]),
                               Print (''Key not found in '' @ config_path @ '': common''),
                               JournalSend (''Key not found in '' @ config_path @ '': common'')
                                 LOG_ERR sway_autostart],
                      world = w, wants = [], pre_list = [], weekend_list = []\<rparr>))
         \<and> (loaded_starts ''common'' = Some (YSeq cs) \<and> loaded_starts ''pre'' = None \<longrightarrow>
            load_config config_path (Some config_file) workday weekend (init_state w) =
              (None, \<lparr>trace = [Print (''found/loading config: '' @ sq # config_path @ [sq]),
                               Print (''Key not found in '' @ config_path @ '': pre''),
                               JournalSend (''Key not found in '' @ config_path @ '': pre'')
                                 LOG_ERR sway_autostart],
                      world = w, wants = cs, pre_list = [], weekend_list = []\<rparr>))"
  using assms
  by (auto simp add: select_simps split: option.splits yaml.splits sum.splits exn.splits)

theorem single_boundary_witness:
  "no_common_config ''autostarts'' = Some no_common_starts
   \<and> no_common_starts ''common'' = None
   \<and> no_common_starts ''pre'' = Some (YSeq [''a''])
   \<and> no_common_starts ''weekend'' = Some (YSeq [''c''])
   \<and> load_config ''c.yml'' (Some no_common_config) False True (init_state ()) =
       (None, \<lparr>trace = [Print (''found/loading config: '' @ sq # ''c.yml'' @ [sq]),
                        Print (''Key not found in '' @ ''c.yml'' @ '': common''),
                        JournalSend (''Key not found in '' @ ''c.yml'' @ '': common'')
                          LOG_ERR sway_autostart],
               world = (), wants = [], pre_list = [], weekend_list = []\<rparr>)
   \<and> no_pre_config ''autostarts'' = Some no_pre_starts
   \<and> no_pre_starts ''common'' = Some (YSeq [''b''])
   \<and> no_pre_starts ''pre'' = None
   \<and> no_pre_starts ''work'' = Some (YSeq [''d''])
   \<and> no_pre_starts ''weekend'' = Some (YSeq [''c''])
   \<and> load_config ''c.yml'' (Some no_pre_config) True False (init_state ()) =
       (None, \<lparr>trace = [Print (''found/loading config: '' @ sq # ''c.yml'' @ [sq]),
                        Print (''Key not found in '' @ ''c.yml'' @ '': pre''),
                        JournalSend (''Key not found in '' @ ''c.yml'' @ '': pre'')
                          LOG_ERR sway_autostart],
               world = (), wants = [''b''], pre_list = [], weekend_list = []\<rparr>)
   \<and> load_config ''c.yml'' (Some no_pre_config) False True (init_state ()) =
       (None, \<lparr>trace = [Print (''found/loading config: '' @ sq # ''c.yml'' @ [sq]),
                        Print (''Key not found in '' @ ''c.yml'' @ '': pre''),
                        JournalSend (''Key not found in '' @ ''c.yml'' @ '': pre'')
                          LOG_ERR sway_autostart],
               world = (), wants = [''b''], pre_list = [], weekend_list = []\<rparr>)"
proof -
  have a: "no_common_config ''autostarts'' = Some no_common_starts"
    by (simp add: no_common_config_def)
  have b: "no_common_starts ''common'' = None"
    and b': "no_common_starts ''pre'' = Some (YSeq [''a''])"
    and b'': "no_common_starts ''weekend'' = Some (YSeq [''c''])"
    by (simp_all add: no_common_starts_def)
  have c: "no_pre_config ''autostarts'' = Some no_pre_starts"
    by (simp add: no_pre_config_def)
  have d: "no_pre_starts ''common'' = Some (YSeq [''b'']) \<and> no_pre_starts ''pre'' = None"
    and d': "no_pre_starts ''work'' = Some (YSeq [''d''])"
    and d'': "no_pre_starts ''weekend'' = Some (YSeq [''c''])"
    by (simp_all add: no_pre_starts_def)
  note common_missing =
    single_boundary [where config_file = no_common_config and loaded_starts = no_common_starts
      and config_path = "''c.yml''" and workday = False and weekend = True and w = "()",
      OF a, THEN conjunct1, rule_format, OF b]
  note pre_missing_workday =
    single_boundary [where config_file = no_pre_config and loaded_starts = no_pre_starts
      and cs = "[''b'']" and config_path = "''c.yml''" and workday = True
      and weekend = False and w = "()", OF c, THEN conjunct2, rule_format, OF d]
  note pre_missing_weekend =
    single_boundary [where config_file = no_pre_config and loaded_starts = no_pre_starts
      and cs = "[''b'']" and config_path = "''c.yml''" and workday = False
      and weekend = True and w = "()", OF c, THEN conjunct2, rule_format, OF d]
  from a b b' b'' c d d' d'' common_missing pre_missing_workday pre_missing_weekend
  show ?thesis
    by blast
qed

text \<open>
  C6. Without a configuration file the configuration step changes nothing and reports
  nothing, and the whole run consists of opening the connection and \<open>main_quit\<close>: the
  three lists are empty, nothing is logged, no command is run or sent.
\<close>

theorem no_config_file:
  "load_config config_path None workday weekend s = (None, s)
   \<and> main E config_path vacation now None w =
       (None, \<lparr>trace = [ConnectionOpen, MainQuit], world = w,
               wants = [], pre_list = [], weekend_list = []\<rparr>)"
  by (simp add: main_def load_config_def seq_def emit_def init_state_def)

section \<open>The pre stage\<close>

text \<open>
  The handler of the pre loop takes \<open>CalledProcessError\<close>, which \<open>subprocess.run\<close> with
  \<open>check=False\<close> never raises: the loop reports no error, whatever the commands do.
\<close>

lemma pre_stage_reports_nothing:
  "filter is_error_report (trace (snd (for_each (pre_task E) cs s))) =
   filter is_error_report (trace s)"
proof (induction cs arbitrary: s)
  case Nil
  show ?case by simp
next
  case (Cons c cs)
  show ?case
    using Cons.IH [of "snd (pre_task E c s)"]
    by (simp add: pre_task_step LOG_INFO_not_ERR split: prod.splits proc.splits)
qed

text \<open>A shell that cannot be started ends the loop, and the script, with \<open>OSError\<close>.\<close>

lemma pre_stage_spawn_failure:
  assumes "fst (shell E (world s) c) = SpawnFailed m"
  shows "fst (for_each (pre_task E) (c # cs) s) = Some (OSError m)"
proof (cases "shell E (world s) c")
  case (Pair r w')
  with assms have "r = SpawnFailed m"
    by simp
  with Pair show ?thesis
    by (simp add: pre_task_step)
qed

text \<open>
  C2. The pre stage runs the commands in order through a shell and goes on after a
  command that exits with a status other than zero, but it does not report the failure:
  for the pre list \<open>["false", "true"]\<close>, where \<open>false\<close> exits with status 1, the trace
  holds the two announcements at priority \<open>LOG_INFO\<close> and the two runs, and no entry at
  priority \<open>LOG_ERR\<close>.
\<close>

theorem pre_failure_not_reported:
  "for_each (pre_task sample_env) [''false'', ''true''] (init_state ()) =
     (None,
      \<lparr>trace =
         [Print (''running (blocking) '' @ dq # ''pre'' @ dq # '' task: '' @ dq # ''false'' @ [dq]),
          JournalSend (''running (blocking) '' @ dq # ''pre'' @ dq # '' task: '' @ dq # ''false'' @ [dq])
            LOG_INFO ''sway-autostart'',
          Shell ''false'',
          Print (''running (blocking) '' @ dq # ''pre'' @ dq # '' task: '' @ dq # ''true'' @ [dq]),
          JournalSend (''running (blocking) '' @ dq # ''pre'' @ dq # '' task: '' @ dq # ''true'' @ [dq])
            LOG_INFO ''sway-autostart'',
          Shell ''true''],
       world = (), wants = [], pre_list = [], weekend_list = []\<rparr>)
   \<and> fst (shell sample_env () ''false'') = Exited 1 []"
  by (simp add: pre_task_step sample_env_def init_state_def sway_autostart_def)

section \<open>The general stage\<close>




end
